theory Spec2Isabelle
  imports Complex_Main "HOL-Library.AList"
begin

section \<open>Data model\<close>

text \<open>
  The ingestion script works on pandas data frames. A cell of a frame is a missing value
  (NaN, NaT and None are one value here), a text, a number, a truth value or a time stamp.
  A number is a finite value, represented exactly as a rational (integers and floats alike),
  or one of the two infinities that the library reads from texts such as \<open>inf\<close>.
\<close>

datatype timestamp = Timestamp (ts_year: int) (ts_month: nat) (ts_day: nat)

datatype number = Fin rat | PosInf | NegInf

datatype cell = Null | Str string | Num number | Bool bool | Dt timestamp

text \<open>A Series is the list of its cells; a DataFrame is the ordered list of its named columns.\<close>

type_synonym series = "cell list"

type_synonym dataframe = "(string \<times> series) list"

datatype error = KeyError string | IntCastingNaNError | AttributeError | ModuleNotFoundError string
  | OSError string

text \<open>
  What the library does with the objects of a column is its own business: the script only
  chooses the format string and the policy for failures. The library behaviours the script
  relies on are parameters of the model: matching an object against a format string, reading
  an object as a number, printing an object, and the value of a cast to a 64-bit integer of a
  number beyond the 64-bit range.
\<close>

record pandas =
  strptime :: "string \<Rightarrow> cell \<Rightarrow> timestamp option"
  numeric_of :: "cell \<Rightarrow> number option"
  str_of :: "cell \<Rightarrow> string"
  overflow_cast :: "rat \<Rightarrow> int"

section \<open>Frame operations\<close>

definition columns :: "dataframe \<Rightarrow> string list" where
  "columns df = map fst df"

definition getitem :: "dataframe \<Rightarrow> string \<Rightarrow> error + series" where
  "getitem df col = (case map_of df col of None \<Rightarrow> Inl (KeyError col) | Some s \<Rightarrow> Inr s)"

definition setitem :: "dataframe \<Rightarrow> string \<Rightarrow> series \<Rightarrow> dataframe" where
  "setitem df col s = AList.update col s df"

definition nrows :: "dataframe \<Rightarrow> nat" where
  "nrows df = (case df of [] \<Rightarrow> 0 | (c, s) # _ \<Rightarrow> length s)"

definition row_at :: "dataframe \<Rightarrow> nat \<Rightarrow> cell list" where
  "row_at df i = map (\<lambda>(c, s). s ! i) df"

definition rows :: "dataframe \<Rightarrow> cell list list" where
  "rows df = map (row_at df) [0..<nrows df]"

text \<open>
  Two cells are the same value for the library's hash tables when they are equal as
  objects; a truth value equals the number 1 or 0 there.
\<close>

definition cell_key :: "cell \<Rightarrow> cell" where
  "cell_key v = (case v of Bool b \<Rightarrow> Num (Fin (if b then 1 else 0)) | _ \<Rightarrow> v)"

definition row_key :: "cell list \<Rightarrow> cell list" where
  "row_key r = map cell_key r"

text \<open>\<open>duplicated\<close> marks every row that equals an earlier one (keep = first).\<close>

fun duplicated_from :: "'a list \<Rightarrow> 'a list \<Rightarrow> bool list" where
  "duplicated_from seen [] = []"
| "duplicated_from seen (r # rs) = (r \<in> set seen) # duplicated_from (r # seen) rs"

definition duplicated :: "dataframe \<Rightarrow> bool list" where
  "duplicated df = duplicated_from [] (map row_key (rows df))"

definition select :: "bool list \<Rightarrow> 'a list \<Rightarrow> 'a list" where
  "select keep s = map fst (filter snd (zip s keep))"

definition drop_duplicates :: "dataframe \<Rightarrow> dataframe" where
  "drop_duplicates df = (let keep = map Not (duplicated df) in map (\<lambda>(c, s). (c, select keep s)) df)"

section \<open>Series operations\<close>

text \<open>
  With \<open>errors='coerce'\<close> a missing value stays missing, and every other object becomes the
  time stamp that the library reads from it under the format, or the missing-date marker.
\<close>

definition to_datetime_cell :: "pandas \<Rightarrow> string \<Rightarrow> cell \<Rightarrow> cell" where
  "to_datetime_cell L fmt v =
     (if v = Null then Null
      else (case strptime L fmt v of Some d \<Rightarrow> Dt d | None \<Rightarrow> Null))"

definition to_datetime :: "pandas \<Rightarrow> string \<Rightarrow> series \<Rightarrow> series" where
  "to_datetime L fmt s = map (to_datetime_cell L fmt) s"

fun astype_str_cell :: "pandas \<Rightarrow> cell \<Rightarrow> string" where
  "astype_str_cell L (Str t) = t"
| "astype_str_cell L Null = ''nan''"
| "astype_str_cell L (Bool b) = (if b then ''True'' else ''False'')"
| "astype_str_cell L v = str_of L v"

definition astype_str :: "pandas \<Rightarrow> series \<Rightarrow> string list" where
  "astype_str L s = map (astype_str_cell L) s"

definition upper_char :: "char \<Rightarrow> char" where
  "upper_char c =
     (case map_of (zip ''abcdefghijklmnopqrstuvwxyz'' ''ABCDEFGHIJKLMNOPQRSTUVWXYZ'') c of
        Some u \<Rightarrow> u
      | None \<Rightarrow> c)"

definition lower_char :: "char \<Rightarrow> char" where
  "lower_char c =
     (case map_of (zip ''ABCDEFGHIJKLMNOPQRSTUVWXYZ'' ''abcdefghijklmnopqrstuvwxyz'') c of
        Some l \<Rightarrow> l
      | None \<Rightarrow> c)"

definition str_upper :: "string list \<Rightarrow> string list" where
  "str_upper s = map (map upper_char) s"

definition series_map :: "(string \<times> cell) list \<Rightarrow> string list \<Rightarrow> series" where
  "series_map d s = map (\<lambda>t. case map_of d t of Some v \<Rightarrow> v | None \<Rightarrow> Null) s"

definition fillna :: "cell \<Rightarrow> series \<Rightarrow> series" where
  "fillna v s = map (\<lambda>c. if c = Null then v else c) s"

text \<open>
  With \<open>errors='coerce'\<close> a number stays as it is, and every other object becomes the number
  that the library reads from it, or a missing value.
\<close>

fun to_numeric_cell :: "pandas \<Rightarrow> cell \<Rightarrow> cell" where
  "to_numeric_cell L Null = Null"
| "to_numeric_cell L (Num x) = Num x"
| "to_numeric_cell L v = (case numeric_of L v of Some x \<Rightarrow> Num x | None \<Rightarrow> Null)"

definition to_numeric :: "pandas \<Rightarrow> series \<Rightarrow> series" where
  "to_numeric L s = map (to_numeric_cell L) s"

definition trunc :: "rat \<Rightarrow> int" where
  "trunc x = (if 0 \<le> x then \<lfloor>x\<rfloor> else \<lceil>x\<rceil>)"

definition wrap64 :: "int \<Rightarrow> int" where
  "wrap64 k = (k + 2 ^ 63) mod 2 ^ 64 - 2 ^ 63"

definition in_int64 :: "int \<Rightarrow> bool" where
  "in_int64 k \<longleftrightarrow> - (2 ^ 63) \<le> k \<and> k < 2 ^ 63"

text \<open>
  \<open>astype(int)\<close> refuses a column that holds a missing value or an infinity. It truncates
  a finite value towards zero; beyond the 64-bit range the result is whatever 64-bit value the
  cast of the platform produces.
\<close>

definition to_int64 :: "pandas \<Rightarrow> rat \<Rightarrow> int" where
  "to_int64 L x = (if in_int64 (trunc x) then trunc x else wrap64 (overflow_cast L x))"

definition astype_int_cell :: "pandas \<Rightarrow> cell \<Rightarrow> cell" where
  "astype_int_cell L v = (case v of Num (Fin x) \<Rightarrow> Num (Fin (of_int (to_int64 L x))) | _ \<Rightarrow> v)"

definition is_finite :: "cell \<Rightarrow> bool" where
  "is_finite v = (case v of Num (Fin x) \<Rightarrow> True | _ \<Rightarrow> False)"

definition astype_int :: "pandas \<Rightarrow> series \<Rightarrow> error + series" where
  "astype_int L s =
     (if list_all is_finite s then Inr (map (astype_int_cell L) s) else Inl IntCastingNaNError)"

definition isnull_all :: "series \<Rightarrow> bool" where
  "isnull_all s = list_all (\<lambda>c. c = Null) s"

definition valid_values :: "series \<Rightarrow> number list" where
  "valid_values s = concat (map (\<lambda>c. case c of Num x \<Rightarrow> [x] | _ \<Rightarrow> []) s)"

definition finite_part :: "number \<Rightarrow> rat" where
  "finite_part x = (case x of Fin q \<Rightarrow> q | _ \<Rightarrow> 0)"

text \<open>
  The mean skips the missing values. It is missing itself when there is nothing to average
  and when both infinities occur, and it is an infinity when only that infinity occurs.
\<close>

definition mean :: "series \<Rightarrow> cell" where
  "mean s =
     (let xs = valid_values s in
      if xs = [] then Null
      else if PosInf \<in> set xs then (if NegInf \<in> set xs then Null else Num PosInf)
      else if NegInf \<in> set xs then Num NegInf
      else Num (Fin (sum_list (map finite_part xs) / of_nat (length xs))))"

definition is_datetime :: "cell \<Rightarrow> bool" where
  "is_datetime v = (case v of Null \<Rightarrow> True | Dt d \<Rightarrow> True | _ \<Rightarrow> False)"

text \<open>The \<open>.dt\<close> accessor exists on a column of time stamps only.\<close>

definition dt_year :: "series \<Rightarrow> error + series" where
  "dt_year s = (if list_all is_datetime s
     then Inr (map (\<lambda>c. case c of Dt d \<Rightarrow> Num (Fin (of_int (ts_year d))) | _ \<Rightarrow> Null) s)
     else Inl AttributeError)"

section \<open>The cleaning engine\<close>

definition bool_cols :: "string list" where
  "bool_cols = [''Flyover_Observed'', ''PIF_Watchlist_Status'', ''Regional_Stewardship_Status'']"

definition numeric_cols :: "string list" where
  "numeric_cols = [''Temperature'', ''Humidity'', ''Initial_Three_Min_Cnt'', ''AcceptedTSN'',
     ''AOU_Code'', ''Visit'']"

definition count_cols :: "string list" where
  "count_cols = [''Initial_Three_Min_Cnt'', ''Visit'']"

definition code_cols :: "string list" where
  "code_cols = [''AcceptedTSN'', ''AOU_Code'']"

definition categorical_cols :: "string list" where
  "categorical_cols = [''Sex'', ''ID_Method'', ''Distance'', ''Sky'', ''Wind'', ''Disturbance'',
     ''Common_Name'', ''Scientific_Name'', ''Sub_Unit_Code'', ''Site_Name'',
     ''Plot_Name'', ''Observer'', ''Interval_Length'', ''NPSTaxonCode'',
     ''TaxonCode'', ''Previously_Obs'']"

text \<open>
  The date step: \<open>df['Date'] = pd.to_datetime(df['Date'], format='%d-%m-%Y', errors='coerce')\<close>.
  Reading the column is the one unguarded lookup of the engine.
\<close>

definition date_step :: "pandas \<Rightarrow> dataframe \<Rightarrow> error + dataframe" where
  "date_step L df =
     (case getitem df ''Date'' of
        Inl e \<Rightarrow> Inl e
      | Inr date \<Rightarrow> Inr (setitem df ''Date'' (to_datetime L ''%d-%m-%Y'' date)))"

text \<open>
  One round of each \<open>for col in ...: if col in df.columns: df[col] = ...\<close> loop. The
  membership test and the column read are one lookup.
\<close>

definition bool_step :: "pandas \<Rightarrow> string \<Rightarrow> dataframe \<Rightarrow> dataframe" where
  "bool_step L col df =
     (case map_of df col of
        None \<Rightarrow> df
      | Some s \<Rightarrow> setitem df col
          (fillna (Bool False)
             (series_map [(''TRUE'', Bool True), (''FALSE'', Bool False)]
                (str_upper (astype_str L s)))))"

definition numeric_step :: "pandas \<Rightarrow> string \<Rightarrow> dataframe \<Rightarrow> error + dataframe" where
  "numeric_step L col df =
     (case map_of df col of
        None \<Rightarrow> Inr df
      | Some s0 \<Rightarrow>
          (let s = to_numeric L s0 in
           if col \<in> set count_cols then
             (case astype_int L (fillna (Num (Fin 0)) s) of
                Inl e \<Rightarrow> Inl e
              | Inr s' \<Rightarrow> Inr (setitem df col s'))
           else if col \<in> set code_cols then
             (case astype_int L (fillna (Num (Fin (- 1))) s) of
                Inl e \<Rightarrow> Inl e
              | Inr s' \<Rightarrow> Inr (setitem df col s'))
           else if \<not> isnull_all s then Inr (setitem df col (fillna (mean s) s))
           else Inr (setitem df col (fillna (Num (Fin 0)) s))))"

fun numeric_loop :: "pandas \<Rightarrow> string list \<Rightarrow> dataframe \<Rightarrow> error + dataframe" where
  "numeric_loop L [] df = Inr df"
| "numeric_loop L (col # cols) df =
     (case numeric_step L col df of Inl e \<Rightarrow> Inl e | Inr df' \<Rightarrow> numeric_loop L cols df')"

definition categorical_step :: "string \<Rightarrow> dataframe \<Rightarrow> dataframe" where
  "categorical_step col df =
     (case map_of df col of
        None \<Rightarrow> df
      | Some s \<Rightarrow> setitem df col (fillna (Str ''Unknown'') s))"

definition derive_year :: "pandas \<Rightarrow> dataframe \<Rightarrow> error + dataframe" where
  "derive_year L df =
     (if ''Year'' \<notin> set (columns df) \<and> ''Date'' \<in> set (columns df) then
        (case getitem df ''Date'' of
           Inl e \<Rightarrow> Inl e
         | Inr d \<Rightarrow>
             (case dt_year d of
                Inl e \<Rightarrow> Inl e
              | Inr y \<Rightarrow>
                  (case astype_int L (fillna (Num (Fin 0)) y) of
                     Inl e \<Rightarrow> Inl e
                   | Inr y' \<Rightarrow> Inr (setitem df ''Year'' y'))))
      else Inr df)"

definition initial_data_cleaning :: "pandas \<Rightarrow> dataframe \<Rightarrow> error + dataframe" where
  "initial_data_cleaning L df0 =
     (case date_step L (drop_duplicates df0) of
        Inl e \<Rightarrow> Inl e
      | Inr df1 \<Rightarrow>
          (case numeric_loop L numeric_cols (fold (bool_step L) bool_cols df1) of
             Inl e \<Rightarrow> Inl e
           | Inr df3 \<Rightarrow> derive_year L (fold categorical_step categorical_cols df3)))"

section \<open>A small instance of the library\<close>

text \<open>
  To run the model on concrete tables the library parameters need values. This instance
  reads a text of the shape dd-mm-yyyy (digits, a valid calendar day) as a date under the
  format of the script and keeps a time stamp; it reads an optionally signed digit string
  as a number and the texts \<open>inf\<close> and \<open>-inf\<close> as the infinities; it prints the integer part
  of a number.
\<close>

definition digit_of :: "char \<Rightarrow> nat option" where
  "digit_of c = map_of (zip ''0123456789'' [0, 1, 2, 3, 4, 5, 6, 7, 8, 9]) c"

fun digits_acc :: "nat \<Rightarrow> string \<Rightarrow> nat option" where
  "digits_acc a [] = Some a"
| "digits_acc a (c # cs) = (case digit_of c of None \<Rightarrow> None | Some d \<Rightarrow> digits_acc (10 * a + d) cs)"

definition nat_of_digits :: "string \<Rightarrow> nat option" where
  "nat_of_digits t = (if t = [] then None else digits_acc 0 t)"

definition days_in_month :: "nat \<Rightarrow> nat \<Rightarrow> nat" where
  "days_in_month y m =
     (if m = 2 then (if (y mod 4 = 0 \<and> y mod 100 \<noteq> 0) \<or> y mod 400 = 0 then 29 else 28)
      else if m \<in> set [4, 6, 9, 11] then 30 else 31)"

definition sample_strptime :: "string \<Rightarrow> cell \<Rightarrow> timestamp option" where
  "sample_strptime fmt v =
     (case v of
        Str t \<Rightarrow>
          (if fmt = ''%d-%m-%Y'' \<and> length t = 10 \<and> t ! 2 = CHR ''-'' \<and> t ! 5 = CHR ''-'' then
             (case (nat_of_digits (take 2 t), nat_of_digits (take 2 (drop 3 t)), nat_of_digits (drop 6 t)) of
                (Some d, Some m, Some y) \<Rightarrow>
                  (if 1 \<le> m \<and> m \<le> 12 \<and> 1 \<le> d \<and> d \<le> days_in_month y m \<and> 1 \<le> y
                   then Some (Timestamp (int y) m d) else None)
              | _ \<Rightarrow> None)
           else None)
      | Dt d \<Rightarrow> Some d
      | _ \<Rightarrow> None)"

definition sample_numeric :: "cell \<Rightarrow> number option" where
  "sample_numeric v =
     (case v of
        Str t \<Rightarrow>
          (if t = ''inf'' then Some PosInf
           else if t = ''-inf'' then Some NegInf
           else (case t of
                   [] \<Rightarrow> None
                 | c # cs \<Rightarrow>
                     (if c = CHR ''-'' then map_option (\<lambda>n. Fin (- of_nat n)) (nat_of_digits cs)
                      else map_option (\<lambda>n. Fin (of_nat n)) (nat_of_digits t))))
      | Bool b \<Rightarrow> Some (Fin (if b then 1 else 0))
      | _ \<Rightarrow> None)"

fun show_digits :: "nat \<Rightarrow> nat \<Rightarrow> string" where
  "show_digits 0 n = []"
| "show_digits (Suc fuel) n =
     (if n < 10 then [''0123456789'' ! n]
      else show_digits fuel (n div 10) @ [''0123456789'' ! (n mod 10)])"

definition show_nat :: "nat \<Rightarrow> string" where
  "show_nat n = show_digits (Suc n) n"

definition sample_str :: "cell \<Rightarrow> string" where
  "sample_str v =
     (case v of
        Num (Fin x) \<Rightarrow> (if x < 0 then ''-'' else []) @ show_nat (nat \<bar>trunc x\<bar>)
      | Num PosInf \<Rightarrow> ''inf''
      | Num NegInf \<Rightarrow> ''-inf''
      | Dt d \<Rightarrow> show_nat (nat (ts_year d)) @ ''-'' @ show_nat (ts_month d) @ ''-'' @ show_nat (ts_day d)
      | _ \<Rightarrow> [])"

definition sample_pandas :: pandas where
  "sample_pandas = \<lparr>strptime = sample_strptime, numeric_of = sample_numeric, str_of = sample_str,
     overflow_cast = (\<lambda>x. - (2 ^ 63))\<rparr>"

section \<open>The source loader\<close>

text \<open>
  Everything the script prints is a value of \<open>notice\<close>; the console is the list of the
  notices printed so far. A file on disk is a workbook (its sheets by name, in order) or a
  file that \<open>read_excel\<close> fails on, with the text of the exception.
\<close>

datatype notice =
    Starting
  | FileNotFound string string
  | ReadingSheets string string
  | LoadedSheet string nat
  | ReadError string string
  | NoDataLoaded
  | PerformingCleaning
  | CleaningSummary "string list" nat
  | MissingAfterCleaning "(string \<times> nat) list"
  | SavedCsv string
  | Uploading string
  | UploadOk
  | UploadError string
  | CheckServerHint
  | AttemptedConnection string
  | NothingLoaded

datatype excel_file = Workbook "(string \<times> dataframe) list" | Unreadable string

type_synonym filesystem = "string \<Rightarrow> excel_file option"

definition path_join :: "string \<Rightarrow> string \<Rightarrow> string" where
  "path_join folder name =
     (if folder = [] then name
      else if last folder = CHR ''/'' then folder @ name
      else folder @ ''/'' @ name)"

definition capitalize :: "string \<Rightarrow> string" where
  "capitalize t = (case t of [] \<Rightarrow> [] | c # cs \<Rightarrow> upper_char c # map lower_char cs)"

definition excel_files :: "(string \<times> string) list" where
  "excel_files = [(''FOREST'', ''Bird_Monitoring_Data_FOREST.XLSX''),
                  (''GRASSLAND'', ''Bird_Monitoring_Data_GRASSLAND.XLSX'')]"

text \<open>Assigning a scalar to a column fills the column with it.\<close>

definition setitem_scalar :: "dataframe \<Rightarrow> string \<Rightarrow> cell \<Rightarrow> dataframe" where
  "setitem_scalar df col v = setitem df col (replicate (nrows df) v)"

definition tag_sheet :: "string \<Rightarrow> string \<times> dataframe \<Rightarrow> dataframe" where
  "tag_sheet location_type sheet =
     (case sheet of (sheet_name, df_sheet) \<Rightarrow>
        setitem_scalar (setitem_scalar df_sheet ''Location_Type'' (Str (capitalize location_type)))
          ''Admin_Unit_Code'' (Str sheet_name))"

fun load_sheets :: "string \<Rightarrow> (string \<times> dataframe) list \<Rightarrow> dataframe list \<times> notice list
    \<Rightarrow> dataframe list \<times> notice list" where
  "load_sheets location_type [] st = st"
| "load_sheets location_type (sheet # sheets) (all_data, out) =
     (let df_sheet = tag_sheet location_type sheet
      in load_sheets location_type sheets
           (all_data @ [df_sheet], out @ [LoadedSheet (fst sheet) (nrows df_sheet)]))"

definition load_file :: "filesystem \<Rightarrow> string \<Rightarrow> string \<times> string \<Rightarrow> dataframe list \<times> notice list
    \<Rightarrow> dataframe list \<times> notice list" where
  "load_file fs folder_path entry st =
     (case entry of (location_type, filename_excel) \<Rightarrow>
      case st of (all_data, out) \<Rightarrow>
        (let file_path = path_join folder_path filename_excel in
         case fs file_path of
           None \<Rightarrow> (all_data, out @ [FileNotFound filename_excel file_path])
         | Some f \<Rightarrow>
             (let out1 = out @ [ReadingSheets filename_excel location_type] in
              case f of
                Unreadable e \<Rightarrow> (all_data, out1 @ [ReadError filename_excel e])
              | Workbook sheets \<Rightarrow> load_sheets location_type sheets (all_data, out1))))"

text \<open>
  \<open>pd.concat\<close> with its defaults: the columns of the result are the columns of the frames
  in the order of their first appearance, and a frame that lacks a column contributes
  missing values for its rows.
\<close>

definition ordered_union :: "string list \<Rightarrow> string list" where
  "ordered_union cs = fold (\<lambda>c acc. if c \<in> set acc then acc else acc @ [c]) cs []"

definition concat_frames :: "dataframe list \<Rightarrow> dataframe" where
  "concat_frames dfs =
     map (\<lambda>c. (c, concat (map (\<lambda>df. case map_of df c of
                                        Some s \<Rightarrow> s
                                      | None \<Rightarrow> replicate (nrows df) Null) dfs)))
       (ordered_union (concat (map columns dfs)))"

definition load_and_combine_data :: "filesystem \<Rightarrow> string \<Rightarrow> notice list \<times> dataframe" where
  "load_and_combine_data fs folder_path =
     (case fold (load_file fs folder_path) excel_files ([], []) of (all_data, out) \<Rightarrow>
        if all_data = [] then (out @ [NoDataLoaded], [])
        else (out, concat_frames all_data))"

section \<open>The persistence sink\<close>

text \<open>
  The store holds named tables. An attempt to write either replaces the table of that name
  or fails with the text of the exception and changes nothing; the store counts the attempts.
\<close>

record store =
  failure :: "string option"
  tables :: "string \<Rightarrow> dataframe option"
  attempts :: nat

definition to_sql_replace :: "dataframe \<Rightarrow> string \<Rightarrow> store \<Rightarrow> (string + unit) \<times> store" where
  "to_sql_replace df name st =
     (case failure st of
        Some e \<Rightarrow> (Inl e, st\<lparr>attempts := attempts st + 1\<rparr>)
      | None \<Rightarrow> (Inr (), st\<lparr>tables := (tables st)(name \<mapsto> df), attempts := attempts st + 1\<rparr>))"

definition PG_USERNAME :: string where "PG_USERNAME = ''postgres''"
definition PG_PASSWORD :: string where "PG_PASSWORD = ''Roshan@2025''"
definition PG_HOST :: string where "PG_HOST = ''localhost''"
definition PG_PORT :: string where "PG_PORT = ''5432''"
definition PG_DB_NAME :: string where "PG_DB_NAME = ''bird_analysis_db''"

definition hex_digit :: "nat \<Rightarrow> char" where
  "hex_digit n = ''0123456789ABCDEF'' ! (n mod 16)"

definition quote_plus_char :: "char \<Rightarrow> string" where
  "quote_plus_char c =
     (if c \<in> set ''abcdefghijklmnopqrstuvwxyzABCDEFGHIJKLMNOPQRSTUVWXYZ0123456789_.-~'' then [c]
      else if c = CHR '' '' then ''+''
      else [CHR ''%'', hex_digit (of_char c div 16), hex_digit (of_char c)])"

definition quote_plus :: "string \<Rightarrow> string" where
  "quote_plus t = concat (map quote_plus_char t)"

definition db_connection_str :: string where
  "db_connection_str =
     ''postgresql://'' @ PG_USERNAME @ '':'' @ quote_plus PG_PASSWORD @ ''@'' @ PG_HOST @ '':''
       @ PG_PORT @ ''/'' @ PG_DB_NAME"

definition redacted_connection_str :: string where
  "redacted_connection_str =
     ''postgresql://'' @ PG_USERNAME @ '':*****@'' @ PG_HOST @ '':'' @ PG_PORT @ ''/'' @ PG_DB_NAME"

definition upload_to_sql :: "dataframe \<Rightarrow> store \<times> notice list \<Rightarrow> store \<times> notice list" where
  "upload_to_sql df w =
     (case w of (st, out) \<Rightarrow>
        (let out1 = out @ [Uploading PG_DB_NAME] in
         case to_sql_replace df ''bird_observations'' st of
           (Inr u, st') \<Rightarrow> (st', out1 @ [UploadOk])
         | (Inl e, st') \<Rightarrow>
             (st', out1 @ [UploadError e, CheckServerHint, AttemptedConnection redacted_connection_str])))"

section \<open>The script\<close>

record world =
  excel :: filesystem
  cwd :: string
  csv_files :: "string \<Rightarrow> dataframe option"
  database :: store
  console :: "notice list"

definition empty_frame :: "dataframe \<Rightarrow> bool" where
  "empty_frame df = (df = [] \<or> nrows df = 0)"

definition null_counts :: "dataframe \<Rightarrow> (string \<times> nat) list" where
  "null_counts df = filter (\<lambda>(c, n). n > 0) (map (\<lambda>(c, s). (c, length (filter (\<lambda>v. v = Null) s))) df)"

text \<open>
  The script returns the exception that ended it, if any, and the world it leaves behind.
\<close>

definition main :: "pandas \<Rightarrow> world \<Rightarrow> error option \<times> world" where
  "main L w =
     (case load_and_combine_data (excel w) (cwd w) of (out, combined_df) \<Rightarrow>
        (let w1 = w\<lparr>console := console w @ [Starting] @ out\<rparr> in
         if \<not> empty_frame combined_df then
           (let w2 = w1\<lparr>console := console w1 @ [PerformingCleaning]\<rparr> in
            case initial_data_cleaning L combined_df of
              Inl e \<Rightarrow> (Some e, w2)
            | Inr cleaned_df \<Rightarrow>
                (let w3 = w2\<lparr>console := console w2 @
                            [CleaningSummary (columns cleaned_df) (nrows cleaned_df),
                             MissingAfterCleaning (null_counts cleaned_df)]\<rparr>;
                     w4 = w3\<lparr>csv_files := (csv_files w3)(''cleaned_bird_observations.csv'' \<mapsto> cleaned_df),
                             console := console w3 @ [SavedCsv ''cleaned_bird_observations.csv'']\<rparr>
                 in case upload_to_sql cleaned_df (database w4, console w4) of
                      (st, out') \<Rightarrow> (None, w4\<lparr>database := st, console := out'\<rparr>)))
         else (None, w1\<lparr>console := console w1 @ [NothingLoaded]\<rparr>)))"

section \<open>What the engine computes, column by column\<close>

text \<open>
  Every loop of the engine rewrites one column at a time by a function of that column alone.
  The definitions below name these functions; the lemmas of the next sections show that the
  engine computes them.
\<close>

definition apply_col :: "(string \<Rightarrow> series \<Rightarrow> series) \<Rightarrow> string \<Rightarrow> dataframe \<Rightarrow> dataframe" where
  "apply_col g col df = (case map_of df col of None \<Rightarrow> df | Some s \<Rightarrow> setitem df col (g col s))"

definition bool_series :: "pandas \<Rightarrow> series \<Rightarrow> series" where
  "bool_series L s =
     fillna (Bool False)
       (series_map [(''TRUE'', Bool True), (''FALSE'', Bool False)] (str_upper (astype_str L s)))"

definition int_series :: "pandas \<Rightarrow> rat \<Rightarrow> series \<Rightarrow> series" where
  "int_series L dflt s = map (astype_int_cell L) (fillna (Num (Fin dflt)) (to_numeric L s))"

definition float_series :: "pandas \<Rightarrow> series \<Rightarrow> series" where
  "float_series L s =
     (let s' = to_numeric L s in if \<not> isnull_all s' then fillna (mean s') s' else fillna (Num (Fin 0)) s')"

definition numeric_series :: "pandas \<Rightarrow> string \<Rightarrow> series \<Rightarrow> series" where
  "numeric_series L col s =
     (if col \<in> set count_cols then int_series L 0 s
      else if col \<in> set code_cols then int_series L (- 1) s
      else float_series L s)"

definition year_series :: "pandas \<Rightarrow> series \<Rightarrow> series" where
  "year_series L d =
     map (astype_int_cell L)
       (fillna (Num (Fin 0)) (map (\<lambda>c. case c of Dt t \<Rightarrow> Num (Fin (of_int (ts_year t))) | _ \<Rightarrow> Null) d))"

definition clean_col :: "pandas \<Rightarrow> string \<Rightarrow> series \<Rightarrow> series" where
  "clean_col L col s =
     (if col = ''Date'' then to_datetime L ''%d-%m-%Y'' s
      else if col \<in> set bool_cols then bool_series L s
      else if col \<in> set numeric_cols then numeric_series L col s
      else if col \<in> set categorical_cols then fillna (Str ''Unknown'') s
      else s)"

definition cleaned_cols :: "string list" where
  "cleaned_cols = ''Date'' # bool_cols @ numeric_cols @ categorical_cols"

definition continuous_cols :: "string list" where
  "continuous_cols = [''Temperature'', ''Humidity'']"

definition add_year :: "pandas \<Rightarrow> dataframe \<Rightarrow> dataframe" where
  "add_year L df =
     (case map_of df ''Year'' of
        Some y \<Rightarrow> df
      | None \<Rightarrow> (case map_of df ''Date'' of None \<Rightarrow> df | Some d \<Rightarrow> setitem df ''Year'' (year_series L d)))"

definition core :: "pandas \<Rightarrow> dataframe \<Rightarrow> dataframe" where
  "core L df = fold (apply_col (clean_col L)) cleaned_cols df"

text \<open>
  A column can be cast to integers when the library reads no infinity in it. The cast of
  the engine fails on a frame when one of its count or code columns cannot be cast.
\<close>

definition is_infinite :: "cell \<Rightarrow> bool" where
  "is_infinite v = (v = Num PosInf \<or> v = Num NegInf)"

definition castable :: "pandas \<Rightarrow> series \<Rightarrow> bool" where
  "castable L s = list_all (\<lambda>v. \<not> is_infinite (to_numeric_cell L v)) s"

definition uncastable_col :: "pandas \<Rightarrow> dataframe \<Rightarrow> string \<Rightarrow> bool" where
  "uncastable_col L df col = (case map_of df col of None \<Rightarrow> False | Some s \<Rightarrow> \<not> castable L s)"

definition cast_fails :: "pandas \<Rightarrow> dataframe \<Rightarrow> bool" where
  "cast_fails L df = list_ex (uncastable_col L df) (count_cols @ code_cols)"


text \<open>
  The words of the specification for the flag columns: two tokens are equal under
  case-insensitive comparison when they have the same letters up to case.
\<close>

definition equal_ignoring_case :: "string \<Rightarrow> string \<Rightarrow> bool" where
  "equal_ignoring_case a b = list_all2 (\<lambda>x y. lower_char x = lower_char y) a b"

text \<open>The library reads back what it has read: a time stamp it produced is kept by a second pass.\<close>

definition reads_back :: "pandas \<Rightarrow> bool" where
  "reads_back L = (\<forall>v d. strptime L ''%d-%m-%Y'' v = Some d \<longrightarrow> strptime L ''%d-%m-%Y'' (Dt d) = Some d)"

section \<open>Unfolding the model on concrete tables\<close>

text \<open>The defining equations that the simplifier needs to run the model on a concrete table.\<close>

lemmas frame_defs = columns_def getitem_def setitem_def nrows_def row_at_def rows_def duplicated_def
  select_def drop_duplicates_def cell_key_def row_key_def upt_rec

lemmas series_defs = to_datetime_def to_datetime_cell_def astype_str_def upper_char_def
  lower_char_def str_upper_def series_map_def fillna_def to_numeric_def trunc_def in_int64_def
  to_int64_def astype_int_cell_def is_finite_def astype_int_def isnull_all_def valid_values_def
  finite_part_def mean_def is_datetime_def dt_year_def

lemmas engine_defs = bool_cols_def numeric_cols_def count_cols_def code_cols_def categorical_cols_def
  date_step_def bool_step_def numeric_step_def categorical_step_def derive_year_def
  initial_data_cleaning_def

lemmas sample_defs = digit_of_def nat_of_digits_def days_in_month_def sample_strptime_def
  sample_numeric_def sample_str_def sample_pandas_def


section \<open>Column lookups through the frame operations\<close>

lemma in_columns_iff: "col \<in> set (columns df) \<longleftrightarrow> map_of df col \<noteq> None"
  by (simp add: columns_def map_of_eq_None_iff)

lemma map_of_setitem: "map_of (setitem df col s) c = (if c = col then Some s else map_of df c)"
  by (simp add: setitem_def update_conv')

lemma setitem_same: "map_of df col = Some s \<Longrightarrow> setitem df col s = df"
  by (simp add: setitem_def update_triv)

lemma map_of_apply_col:
  "map_of (apply_col g col df) c = (if c = col then map_option (g col) (map_of df col) else map_of df c)"
  by (simp add: apply_col_def map_of_setitem split: option.splits)

lemma map_of_fold_apply_col:
  "distinct cols \<Longrightarrow>
   map_of (fold (apply_col g) cols df) c =
     (if c \<in> set cols then map_option (g c) (map_of df c) else map_of df c)"
proof (induction cols arbitrary: df)
  case Nil
  then show ?case by simp
next
  case (Cons a cols)
  then show ?case by (auto simp: map_of_apply_col)
qed

lemma apply_col_fixed:
  "(\<And>s. map_of df col = Some s \<Longrightarrow> g col s = s) \<Longrightarrow> apply_col g col df = df"
  by (simp add: apply_col_def setitem_same split: option.splits)

lemma fold_apply_col_fixed:
  "(\<And>c s. c \<in> set cols \<Longrightarrow> map_of df c = Some s \<Longrightarrow> g c s = s) \<Longrightarrow>
   fold (apply_col g) cols df = df"
proof (induction cols)
  case Nil
  then show ?case by simp
next
  case (Cons a cols)
  have "apply_col g a df = df"
    by (rule apply_col_fixed) (simp add: Cons.prems)
  with Cons show ?case by simp
qed

lemma fold_apply_col_cong:
  "(\<And>c s. c \<in> set cols \<Longrightarrow> g c s = h c s) \<Longrightarrow>
   fold (apply_col g) cols df = fold (apply_col h) cols df"
proof (induction cols arbitrary: df)
  case Nil
  then show ?case by simp
next
  case (Cons a cols)
  have "apply_col g a df = apply_col h a df"
    by (simp add: apply_col_def Cons.prems split: option.splits)
  with Cons show ?case by simp
qed

lemma map_of_drop_duplicates:
  "map_of (drop_duplicates df) c = map_option (select (map Not (duplicated df))) (map_of df c)"
  by (simp add: drop_duplicates_def Let_def map_of_map)

section \<open>The column lists\<close>

lemma distinct_cleaned_cols: "distinct cleaned_cols"
  by (simp add: cleaned_cols_def bool_cols_def numeric_cols_def categorical_cols_def)

lemma cols_apart: "distinct (''Date'' # bool_cols @ numeric_cols @ categorical_cols)"
  using distinct_cleaned_cols by (simp only: cleaned_cols_def)

lemma year_not_cleaned: "''Year'' \<notin> set cleaned_cols"
  by (simp add: cleaned_cols_def bool_cols_def numeric_cols_def categorical_cols_def)

lemma numeric_roles: "set numeric_cols = set continuous_cols \<union> set count_cols \<union> set code_cols"
  by (simp add: numeric_cols_def continuous_cols_def count_cols_def code_cols_def insert_commute)


lemma distinct_numeric_cols: "distinct numeric_cols"
  using cols_apart by simp

lemma clean_col_bool: "c \<in> set bool_cols \<Longrightarrow> clean_col L c s = bool_series L s"
  using cols_apart by (auto simp: clean_col_def)

lemma clean_col_numeric: "c \<in> set numeric_cols \<Longrightarrow> clean_col L c s = numeric_series L c s"
  using cols_apart by (auto simp: clean_col_def)

lemma clean_col_categorical:
  "c \<in> set categorical_cols \<Longrightarrow> clean_col L c s = fillna (Str ''Unknown'') s"
  using cols_apart by (auto simp: clean_col_def)

lemma clean_col_other: "c \<notin> set cleaned_cols \<Longrightarrow> clean_col L c s = s"
  by (simp add: clean_col_def cleaned_cols_def)

lemma clean_col_date: "clean_col L ''Date'' s = to_datetime L ''%d-%m-%Y'' s"
  by (simp add: clean_col_def)

lemma cast_cols_numeric: "c \<in> set (count_cols @ code_cols) \<Longrightarrow> c \<in> set numeric_cols"
  by (auto simp: numeric_roles)

lemma numeric_not_first: "c \<in> set numeric_cols \<Longrightarrow> c \<noteq> ''Date'' \<and> c \<notin> set bool_cols"
  using cols_apart by auto

lemma map_of_core: "map_of (core L df) c = map_option (clean_col L c) (map_of df c)"
proof (cases "c \<in> set cleaned_cols")
  case True
  then show ?thesis
    by (simp add: core_def map_of_fold_apply_col [OF distinct_cleaned_cols])
next
  case False
  then have "map_option (clean_col L c) (map_of df c) = map_of df c"
    by (cases "map_of df c") (simp_all add: clean_col_other)
  with False show ?thesis
    by (simp add: core_def map_of_fold_apply_col [OF distinct_cleaned_cols])
qed

section \<open>The loops of the engine as column functions\<close>

lemma to_numeric_cell_range: "to_numeric_cell L v = Null \<or> (\<exists>x. to_numeric_cell L v = Num x)"
  by (cases v) (auto split: option.splits)

lemma to_numeric_cell_cases:
  obtains "to_numeric_cell L v = Null" | x where "to_numeric_cell L v = Num x"
  using to_numeric_cell_range [of L v] by blast



lemma finite_fill_cell:
  "is_finite (if to_numeric_cell L v = Null then Num (Fin a) else to_numeric_cell L v)
     \<longleftrightarrow> \<not> is_infinite (to_numeric_cell L v)"
proof (cases v rule: to_numeric_cell_cases [of L])
  case 1
  then show ?thesis by (simp add: is_finite_def is_infinite_def)
next
  case (2 x)
  then show ?thesis by (cases x) (simp_all add: is_finite_def is_infinite_def)
qed

lemma finite_fill_iff: "list_all is_finite (fillna (Num (Fin a)) (to_numeric L s)) \<longleftrightarrow> castable L s"
  by (induction s) (simp_all add: fillna_def to_numeric_def castable_def finite_fill_cell)

lemma astype_int_fill:
  "astype_int L (fillna (Num (Fin a)) (to_numeric L s))
     = (if castable L s then Inr (int_series L a s) else Inl IntCastingNaNError)"
  by (simp add: astype_int_def finite_fill_iff int_series_def)

lemma bool_step_eq: "bool_step L = apply_col (\<lambda>c. bool_series L)"
  by (rule ext)+ (simp add: bool_step_def apply_col_def bool_series_def split: option.splits)

lemma categorical_step_eq: "categorical_step = apply_col (\<lambda>c. fillna (Str ''Unknown''))"
  by (rule ext)+ (simp add: categorical_step_def apply_col_def split: option.splits)

lemma numeric_step_cases:
  "numeric_step L col df =
     (if col \<in> set (count_cols @ code_cols) \<and> uncastable_col L df col then Inl IntCastingNaNError
      else Inr (apply_col (numeric_series L) col df))"
  by (cases "map_of df col")
     (auto simp: numeric_step_def apply_col_def numeric_series_def astype_int_fill float_series_def
        uncastable_col_def Let_def)

lemma uncastable_col_apply_col:
  "c \<noteq> a \<Longrightarrow> uncastable_col L (apply_col g a df) c = uncastable_col L df c"
  by (simp add: uncastable_col_def map_of_apply_col)

lemma numeric_loop_cases:
  "distinct cols \<Longrightarrow>
   numeric_loop L cols df =
     (if list_ex (\<lambda>c. c \<in> set (count_cols @ code_cols) \<and> uncastable_col L df c) cols
      then Inl IntCastingNaNError
      else Inr (fold (apply_col (numeric_series L)) cols df))"
proof (induction cols arbitrary: df)
  case Nil
  then show ?case by simp
next
  case (Cons a cols)
  let ?P = "\<lambda>d c. c \<in> set (count_cols @ code_cols) \<and> uncastable_col L d c"
  have ne: "c \<noteq> a" if "c \<in> set cols" for c
    using that Cons.prems by auto
  have same: "list_ex (?P (apply_col (numeric_series L) a df)) cols = list_ex (?P df) cols"
    by (rule list_ex_cong [OF refl]) (simp add: uncastable_col_apply_col ne del: set_append)
  from Cons show ?case
    by (simp add: numeric_step_cases same del: set_append)
qed

lemma cast_fails_numeric_cols:
  "list_ex (\<lambda>c. c \<in> set (count_cols @ code_cols) \<and> uncastable_col L df c) numeric_cols
     = cast_fails L df"
  using cast_cols_numeric by (auto simp: cast_fails_def list_ex_iff)

lemma core_unfold:
  "core L df =
     fold categorical_step categorical_cols
       (fold (apply_col (numeric_series L)) numeric_cols
          (fold (bool_step L) bool_cols (apply_col (clean_col L) ''Date'' df)))"
proof -
  have b: "fold (bool_step L) bool_cols d = fold (apply_col (clean_col L)) bool_cols d" for d
    unfolding bool_step_eq by (rule fold_apply_col_cong) (simp add: clean_col_bool)
  have n: "fold (apply_col (numeric_series L)) numeric_cols d
             = fold (apply_col (clean_col L)) numeric_cols d" for d
    by (rule fold_apply_col_cong) (simp add: clean_col_numeric)
  have c: "fold categorical_step categorical_cols d
             = fold (apply_col (clean_col L)) categorical_cols d" for d
    unfolding categorical_step_eq by (rule fold_apply_col_cong) (simp add: clean_col_categorical)
  show ?thesis
    by (simp add: core_def cleaned_cols_def b n c)
qed

lemma is_datetime_to_datetime: "list_all is_datetime (to_datetime L fmt s)"
  by (induction s) (simp_all add: to_datetime_def to_datetime_cell_def is_datetime_def split: option.splits)

lemma astype_int_year:
  "astype_int L (fillna (Num (Fin 0))
      (map (\<lambda>c. case c of Dt t \<Rightarrow> Num (Fin (of_int (ts_year t))) | _ \<Rightarrow> Null) d))
     = Inr (year_series L d)"
proof -
  have "list_all is_finite
          (fillna (Num (Fin 0)) (map (\<lambda>c. case c of Dt t \<Rightarrow> Num (Fin (of_int (ts_year t))) | _ \<Rightarrow> Null) d))"
    by (induction d) (auto simp: fillna_def is_finite_def split: cell.splits)
  then show ?thesis
    by (simp add: astype_int_def year_series_def)
qed

lemma derive_year_eq:
  assumes "\<And>d. map_of df ''Date'' = Some d \<Longrightarrow> list_all is_datetime d"
  shows "derive_year L df = Inr (add_year L df)"
proof (cases "map_of df ''Year''")
  case (Some y)
  then show ?thesis
    by (simp add: derive_year_def add_year_def in_columns_iff)
next
  case None
  show ?thesis
  proof (cases "map_of df ''Date''")
    case dn: None
    with None show ?thesis
      by (simp add: derive_year_def add_year_def in_columns_iff)
  next
    case (Some d)
    with assms have "list_all is_datetime d" by simp
    with None Some show ?thesis
      by (simp add: derive_year_def add_year_def in_columns_iff getitem_def dt_year_def astype_int_year)
  qed
qed

lemma date_step_cases:
  "date_step L df =
     (case map_of df ''Date'' of
        None \<Rightarrow> Inl (KeyError ''Date'')
      | Some d \<Rightarrow> Inr (apply_col (clean_col L) ''Date'' df))"
  by (simp add: date_step_def getitem_def apply_col_def clean_col_date split: option.splits)

lemma uncastable_after_first_steps:
  assumes "c \<in> set (count_cols @ code_cols)"
  shows "uncastable_col L (fold (bool_step L) bool_cols (apply_col (clean_col L) ''Date'' df)) c
           = uncastable_col L df c"
proof -
  from assms have n: "c \<in> set numeric_cols" by (rule cast_cols_numeric)
  have d: "distinct bool_cols" using cols_apart by simp
  from numeric_not_first [OF n]
  have "map_of (fold (apply_col (\<lambda>c. bool_series L)) bool_cols (apply_col (clean_col L) ''Date'' df)) c
          = map_of df c"
    by (simp add: map_of_fold_apply_col [OF d] map_of_apply_col)
  then show ?thesis
    by (simp add: uncastable_col_def bool_step_eq)
qed

lemma cast_fails_after_first_steps:
  "cast_fails L (fold (bool_step L) bool_cols (apply_col (clean_col L) ''Date'' df)) = cast_fails L df"
  unfolding cast_fails_def list_ex_iff using uncastable_after_first_steps by blast

text \<open>The engine in one equation: its two ways to fail, and what it returns otherwise.\<close>

lemma cleaning_cases:
  "initial_data_cleaning L df =
     (if map_of df ''Date'' = None then Inl (KeyError ''Date'')
      else if cast_fails L (drop_duplicates df) then Inl IntCastingNaNError
      else Inr (add_year L (core L (drop_duplicates df))))"
proof (cases "map_of df ''Date''")
  case None
  then show ?thesis
    by (simp add: initial_data_cleaning_def date_step_cases map_of_drop_duplicates)
next
  case (Some d)
  let ?dd = "drop_duplicates df"
  let ?d = "select (map Not (duplicated df)) d"
  have dd: "map_of ?dd ''Date'' = Some ?d"
    using Some by (simp add: map_of_drop_duplicates)
  have "map_of (core L ?dd) ''Date'' = Some (to_datetime L ''%d-%m-%Y'' ?d)"
    by (simp add: map_of_core dd clean_col_date)
  then have year: "derive_year L (core L ?dd) = Inr (add_year L (core L ?dd))"
    by (intro derive_year_eq) (simp add: is_datetime_to_datetime)
  show ?thesis
    using Some
    by (simp add: initial_data_cleaning_def date_step_cases dd
        numeric_loop_cases [OF distinct_numeric_cols] cast_fails_numeric_cols
        cast_fails_after_first_steps core_unfold [symmetric] year del: set_append)
qed

lemma cleaning_returns:
  assumes "initial_data_cleaning L df = Inr out"
  shows "out = add_year L (core L (drop_duplicates df))"
    and "map_of df ''Date'' \<noteq> None"
    and "\<not> cast_fails L (drop_duplicates df)"
  using assms by (simp_all add: cleaning_cases split: if_splits)

section \<open>The columns of the cleaned frame\<close>

lemma map_of_add_year:
  "map_of (add_year L df) c =
     (if c = ''Year'' \<and> map_of df ''Year'' = None
      then map_option (year_series L) (map_of df ''Date'') else map_of df c)"
  by (simp add: add_year_def map_of_setitem split: option.splits)

lemma map_of_cleaned:
  "c \<noteq> ''Year'' \<Longrightarrow>
   map_of (add_year L (core L df)) c = map_option (clean_col L c) (map_of df c)"
  by (simp add: map_of_add_year map_of_core)


lemma cleaned_col_not_year: "c \<in> set cleaned_cols \<Longrightarrow> c \<noteq> ''Year''"
  using year_not_cleaned by auto

lemma bool_col_cleaned: "c \<in> set bool_cols \<Longrightarrow> c \<in> set cleaned_cols"
  by (simp add: cleaned_cols_def)



lemma uncastable_col_iff:
  "uncastable_col L df col \<longleftrightarrow>
     (\<exists>s. map_of df col = Some s \<and> (\<exists>v\<in>set s. is_infinite (to_numeric_cell L v)))"
  by (cases "map_of df col") (simp_all add: uncastable_col_def castable_def list_all_iff)

lemma cast_fails_iff:
  "cast_fails L df \<longleftrightarrow>
     (\<exists>col\<in>set (count_cols @ code_cols). \<exists>s. map_of df col = Some s
        \<and> (\<exists>v\<in>set s. is_infinite (to_numeric_cell L v)))"
  by (simp add: cast_fails_def list_ex_iff uncastable_col_iff del: set_append)

lemma nth_to_datetime:
  "i < length s \<Longrightarrow>
   to_datetime L fmt s ! i =
     (if s ! i = Null then Null
      else (case strptime L fmt (s ! i) of Some t \<Rightarrow> Dt t | None \<Rightarrow> Null))"
  by (simp add: to_datetime_def to_datetime_cell_def)

lemma loader_without_files: "snd (load_and_combine_data (\<lambda>p. None) folder) = []"
  by (simp add: load_and_combine_data_def excel_files_def load_file_def)

section \<open>Claims about the cleaning engine\<close>

text \<open>
  C10, as stated: only a missing \<open>Date\<close> column can make the engine fail. It fails on the
  table below, which has a \<open>Date\<close> column: the library reads the text \<open>inf\<close> in the visit
  column as an infinity, which the cast to integers refuses.
\<close>

theorem only_date_can_fail_counterexample:
  "''Date'' \<in> set (columns [(''Date'', [Str ''25-01-2023'']), (''Visit'', [Str ''inf''])])
   \<and> initial_data_cleaning sample_pandas [(''Date'', [Str ''25-01-2023'']), (''Visit'', [Str ''inf''])]
       = Inl IntCastingNaNError"
  by (simp add: frame_defs series_defs engine_defs sample_defs)

text \<open>
  C10, amended. The engine fails with the failed lookup of \<open>Date\<close> on every table without a
  \<open>Date\<close> column, the empty table without columns that the loader returns when it finds no
  file included. On a table with a \<open>Date\<close> column it fails in one case only: the library
  reads an infinity in a surviving cell of a count or code column that the table has, and
  the failure is then the refused cast. No other column has to be there.
\<close>

theorem cleaning_failures:
  "(initial_data_cleaning L df = Inl e \<longleftrightarrow>
      (''Date'' \<notin> set (columns df) \<and> e = KeyError ''Date'')
    \<or> (''Date'' \<in> set (columns df) \<and> e = IntCastingNaNError
        \<and> (\<exists>col\<in>set (count_cols @ code_cols). \<exists>s. map_of (drop_duplicates df) col = Some s
              \<and> (\<exists>v\<in>set s. is_infinite (to_numeric_cell L v)))))
   \<and> initial_data_cleaning L (snd (load_and_combine_data (\<lambda>p. None) folder)) = Inl (KeyError ''Date'')"
proof
  show "initial_data_cleaning L df = Inl e \<longleftrightarrow>
      (''Date'' \<notin> set (columns df) \<and> e = KeyError ''Date'')
    \<or> (''Date'' \<in> set (columns df) \<and> e = IntCastingNaNError
        \<and> (\<exists>col\<in>set (count_cols @ code_cols). \<exists>s. map_of (drop_duplicates df) col = Some s
              \<and> (\<exists>v\<in>set s. is_infinite (to_numeric_cell L v))))"
    unfolding cast_fails_iff [symmetric] in_columns_iff
    by (auto simp: cleaning_cases)
  show "initial_data_cleaning L (snd (load_and_combine_data (\<lambda>p. None) folder)) = Inl (KeyError ''Date'')"
    by (simp add: loader_without_files cleaning_cases)
qed

theorem cleaning_failures_witness:
  "initial_data_cleaning sample_pandas [(''Visit'', [Str ''2''])] = Inl (KeyError ''Date'')
   \<and> initial_data_cleaning sample_pandas [(''Date'', [Str ''25-01-2023''])] \<noteq> Inl (KeyError ''Date'')
   \<and> initial_data_cleaning sample_pandas [(''Date'', [Str ''25-01-2023''])]
       = Inr [(''Date'', [Dt (Timestamp 2023 1 25)]), (''Year'', [Num (Fin 2023)])]"
proof -
  have "initial_data_cleaning sample_pandas [(''Visit'', [Str ''2''])] = Inl (KeyError ''Date'')"
    using cleaning_failures [of sample_pandas "[(''Visit'', [Str ''2''])]" "KeyError ''Date''"]
    by (simp add: columns_def)
  moreover have "initial_data_cleaning sample_pandas [(''Date'', [Str ''25-01-2023''])] \<noteq> Inl (KeyError ''Date'')"
    using cleaning_failures [of sample_pandas "[(''Date'', [Str ''25-01-2023''])]" "KeyError ''Date''"]
    by (simp add: columns_def)
  moreover have "initial_data_cleaning sample_pandas [(''Date'', [Str ''25-01-2023''])]
       = Inr [(''Date'', [Dt (Timestamp 2023 1 25)]), (''Year'', [Num (Fin 2023)])]"
    by (simp add: frame_defs series_defs engine_defs sample_defs)
  ultimately show ?thesis by simp
qed

text \<open>
  C4. The date step returns on every frame with a \<open>Date\<close> column, and treats every value of
  the column on its own: a missing value stays missing, and anything else becomes the time
  stamp that the library reads from it under the one format \<open>%d-%m-%Y\<close>, or the missing-date
  marker when the library reads none. No other date is put in its place. When the engine
  returns, the \<open>Date\<close> column of its result is the column the date step produced, and when
  the engine fails on such a table the failure is not the date step's.
\<close>

theorem date_parsing_coerces_failures:
  assumes "map_of (drop_duplicates df) ''Date'' = Some s"
  shows "\<exists>df1 s'. date_step L (drop_duplicates df) = Inr df1 \<and> map_of df1 ''Date'' = Some s'
           \<and> length s' = length s
           \<and> (\<forall>i<length s. s' ! i =
                 (if s ! i = Null then Null
                  else (case strptime L ''%d-%m-%Y'' (s ! i) of Some t \<Rightarrow> Dt t | None \<Rightarrow> Null)))
           \<and> (\<forall>out. initial_data_cleaning L df = Inr out \<longrightarrow> map_of out ''Date'' = Some s')
           \<and> (\<forall>e. initial_data_cleaning L df = Inl e \<longrightarrow> e = IntCastingNaNError)"
proof -
  let ?dd = "drop_duplicates df"
  let ?s' = "to_datetime L ''%d-%m-%Y'' s"
  from assms have d: "map_of df ''Date'' \<noteq> None"
    by (auto simp: map_of_drop_duplicates)
  have step: "date_step L ?dd = Inr (apply_col (clean_col L) ''Date'' ?dd)"
    using assms by (simp add: date_step_cases)
  have col: "map_of (apply_col (clean_col L) ''Date'' ?dd) ''Date'' = Some ?s'"
    using assms by (simp add: map_of_apply_col clean_col_date)
  have len: "length ?s' = length s"
    by (simp add: to_datetime_def)
  have cells: "\<forall>i<length s. ?s' ! i =
                 (if s ! i = Null then Null
                  else (case strptime L ''%d-%m-%Y'' (s ! i) of Some t \<Rightarrow> Dt t | None \<Rightarrow> Null))"
    by (simp add: nth_to_datetime)
  have out: "\<forall>out. initial_data_cleaning L df = Inr out \<longrightarrow> map_of out ''Date'' = Some ?s'"
    using assms by (auto dest!: cleaning_returns(1) simp: map_of_cleaned clean_col_date)
  have err: "\<forall>e. initial_data_cleaning L df = Inl e \<longrightarrow> e = IntCastingNaNError"
    using d by (auto simp: cleaning_cases split: if_splits)
  from step col len cells out err show ?thesis by blast
qed

theorem date_parsing_coerces_failures_witness:
  "map_of (drop_duplicates [(''Date'', [Str ''25-01-2023'', Str ''31-02-2023'', Null])]) ''Date''
     = Some [Str ''25-01-2023'', Str ''31-02-2023'', Null]
   \<and> initial_data_cleaning sample_pandas [(''Date'', [Str ''25-01-2023'', Str ''31-02-2023'', Null])]
     = Inr [(''Date'', [Dt (Timestamp 2023 1 25), Null, Null]),
            (''Year'', [Num (Fin 2023), Num (Fin 0), Num (Fin 0)])]
   \<and> (\<exists>df1 s'. date_step sample_pandas
                   (drop_duplicates [(''Date'', [Str ''25-01-2023'', Str ''31-02-2023'', Null])]) = Inr df1
          \<and> map_of df1 ''Date'' = Some s' \<and> length s' = 3
          \<and> s' ! 1 = (case sample_strptime ''%d-%m-%Y'' (Str ''31-02-2023'') of
                         Some t \<Rightarrow> Dt t | None \<Rightarrow> Null))"
proof -
  let ?df = "[(''Date'', [Str ''25-01-2023'', Str ''31-02-2023'', Null])]"
  let ?s = "[Str ''25-01-2023'', Str ''31-02-2023'', Null]"
  have h: "map_of (drop_duplicates ?df) ''Date'' = Some ?s"
    by (simp add: frame_defs)
  have e: "initial_data_cleaning sample_pandas ?df
     = Inr [(''Date'', [Dt (Timestamp 2023 1 25), Null, Null]),
            (''Year'', [Num (Fin 2023), Num (Fin 0), Num (Fin 0)])]"
    by (simp add: frame_defs series_defs engine_defs sample_defs)
  from date_parsing_coerces_failures [OF h, of sample_pandas]
  obtain df1 s' where o: "date_step sample_pandas (drop_duplicates ?df) = Inr df1"
    "map_of df1 ''Date'' = Some s'" "length s' = length ?s"
    and n: "\<forall>i<length ?s. s' ! i =
                 (if ?s ! i = Null then Null
                  else (case strptime sample_pandas ''%d-%m-%Y'' (?s ! i) of
                          Some t \<Rightarrow> Dt t | None \<Rightarrow> Null))"
    by blast
  from n have "s' ! 1 = (case sample_strptime ''%d-%m-%Y'' (Str ''31-02-2023'') of
                         Some t \<Rightarrow> Dt t | None \<Rightarrow> Null)"
    by (simp add: sample_pandas_def)
  moreover from o have "length s' = 3" by simp
  ultimately show ?thesis using h e o by blast
qed

subsection \<open>Flags\<close>

lemma upper_char_T: "upper_char x = CHR ''T'' \<longleftrightarrow> lower_char x = lower_char CHR ''T''"
  by (auto simp: upper_char_def lower_char_def split: if_splits)

lemma upper_char_R: "upper_char x = CHR ''R'' \<longleftrightarrow> lower_char x = lower_char CHR ''R''"
  by (auto simp: upper_char_def lower_char_def split: if_splits)

lemma upper_char_U: "upper_char x = CHR ''U'' \<longleftrightarrow> lower_char x = lower_char CHR ''U''"
  by (auto simp: upper_char_def lower_char_def split: if_splits)

lemma upper_char_E: "upper_char x = CHR ''E'' \<longleftrightarrow> lower_char x = lower_char CHR ''E''"
  by (auto simp: upper_char_def lower_char_def split: if_splits)

lemma upper_is_TRUE: "map upper_char t = ''TRUE'' \<longleftrightarrow> equal_ignoring_case t ''TRUE''"
  by (auto simp: equal_ignoring_case_def list_all2_Cons2 map_eq_Cons_conv
        upper_char_T upper_char_R upper_char_U upper_char_E)

lemma not_TRUE_and_FALSE:
  assumes "equal_ignoring_case t ''FALSE''"
  shows "\<not> equal_ignoring_case t ''TRUE''"
proof
  assume "equal_ignoring_case t ''TRUE''"
  then have "length t = length ''TRUE''"
    unfolding equal_ignoring_case_def by (rule list_all2_lengthD)
  moreover from assms have "length t = length ''FALSE''"
    unfolding equal_ignoring_case_def by (rule list_all2_lengthD)
  ultimately show False by simp
qed

lemma nan_not_TRUE: "\<not> equal_ignoring_case ''nan'' ''TRUE''"
  by (simp add: equal_ignoring_case_def)

lemma nth_bool_series:
  assumes "i < length s"
  shows "bool_series L s ! i = Bool (equal_ignoring_case (astype_str_cell L (s ! i)) ''TRUE'')"
proof -
  have "bool_series L s ! i = Bool (map upper_char (astype_str_cell L (s ! i)) = ''TRUE'')"
    using assms by (simp add: bool_series_def fillna_def series_map_def str_upper_def astype_str_def)
  then show ?thesis by (simp add: upper_is_TRUE)
qed

lemma length_bool_series: "length (bool_series L s) = length s"
  by (simp add: bool_series_def fillna_def series_map_def str_upper_def astype_str_def)

lemma map_of_flag_stage:
  assumes "col \<in> set bool_cols"
  shows "map_of (fold (bool_step L) bool_cols df) col = map_option (bool_series L) (map_of df col)"
proof -
  have "distinct bool_cols" using cols_apart by simp
  with assms show ?thesis
    by (simp add: bool_step_eq map_of_fold_apply_col)
qed

text \<open>
  C3. The flag loop returns on every frame. In each of the three flag columns that the frame
  has, every cell becomes a truth value: true when the text of the cell equals \<open>TRUE\<close> up to
  case, false when it equals \<open>FALSE\<close> up to case, and false for every other text and for a
  missing value. When the engine returns, the flag column of its result is the normalised
  column of the surviving rows.
\<close>

theorem flags_normalised:
  assumes "col \<in> set bool_cols"
    and "map_of df col = Some s"
  shows "\<exists>s'. map_of (fold (bool_step L) bool_cols df) col = Some s'
           \<and> length s' = length s
           \<and> (\<forall>i<length s.
                 s' ! i = Bool (equal_ignoring_case (astype_str_cell L (s ! i)) ''TRUE'')
               \<and> (\<forall>t. s ! i = Str t \<longrightarrow> s' ! i = Bool (equal_ignoring_case t ''TRUE''))
               \<and> (\<forall>t. s ! i = Str t \<and> equal_ignoring_case t ''FALSE'' \<longrightarrow> s' ! i = Bool False)
               \<and> (s ! i = Null \<longrightarrow> s' ! i = Bool False))
           \<and> (\<forall>df0 out. drop_duplicates df0 = df \<and> initial_data_cleaning L df0 = Inr out
                 \<longrightarrow> map_of out col = Some s')"
proof -
  have stage: "map_of (fold (bool_step L) bool_cols df) col = Some (bool_series L s)"
    using assms by (simp add: map_of_flag_stage)
  have cell: "bool_series L s ! i = Bool (equal_ignoring_case (astype_str_cell L (s ! i)) ''TRUE'')
               \<and> (\<forall>t. s ! i = Str t \<longrightarrow> bool_series L s ! i = Bool (equal_ignoring_case t ''TRUE''))
               \<and> (\<forall>t. s ! i = Str t \<and> equal_ignoring_case t ''FALSE'' \<longrightarrow> bool_series L s ! i = Bool False)
               \<and> (s ! i = Null \<longrightarrow> bool_series L s ! i = Bool False)"
    if "i < length s" for i
    using that by (auto simp: nth_bool_series nan_not_TRUE dest: not_TRUE_and_FALSE)
  have ne: "col \<noteq> ''Year''"
    using assms(1) by (intro cleaned_col_not_year bool_col_cleaned)
  have run: "map_of out col = Some (bool_series L s)"
    if "drop_duplicates df0 = df \<and> initial_data_cleaning L df0 = Inr out" for df0 out
  proof -
    from that have "out = add_year L (core L df)"
      by (auto dest: cleaning_returns(1))
    then show ?thesis
      using assms ne by (simp add: map_of_cleaned clean_col_bool)
  qed
  show ?thesis
    by (intro exI conjI, rule stage, rule length_bool_series) (use cell run in blast)+
qed

theorem flags_normalised_witness:
  "''Flyover_Observed'' \<in> set bool_cols
   \<and> drop_duplicates [(''Date'', [Null, Null, Null, Null]),
                      (''Flyover_Observed'', [Str ''True'', Str ''false'', Str ''yes'', Null])]
      = [(''Date'', [Null, Null, Null, Null]),
         (''Flyover_Observed'', [Str ''True'', Str ''false'', Str ''yes'', Null])]
   \<and> initial_data_cleaning sample_pandas
        [(''Date'', [Null, Null, Null, Null]),
         (''Flyover_Observed'', [Str ''True'', Str ''false'', Str ''yes'', Null])]
      = Inr [(''Date'', [Null, Null, Null, Null]),
             (''Flyover_Observed'', [Bool True, Bool False, Bool False, Bool False]),
             (''Year'', [Num (Fin 0), Num (Fin 0), Num (Fin 0), Num (Fin 0)])]
   \<and> (\<exists>s'. map_of (fold (bool_step sample_pandas) bool_cols
                 [(''Date'', [Null, Null, Null, Null]),
                  (''Flyover_Observed'', [Str ''True'', Str ''false'', Str ''yes'', Null])])
               ''Flyover_Observed'' = Some s'
        \<and> s' ! 0 = Bool (equal_ignoring_case ''True'' ''TRUE'') \<and> s' ! 3 = Bool False
        \<and> s' = [Bool True, Bool False, Bool False, Bool False])"
proof -
  let ?df = "[(''Date'', [Null, Null, Null, Null]),
              (''Flyover_Observed'', [Str ''True'', Str ''false'', Str ''yes'', Null])]"
  let ?s = "[Str ''True'', Str ''false'', Str ''yes'', Null]"
  let ?out = "[(''Date'', [Null, Null, Null, Null]),
             (''Flyover_Observed'', [Bool True, Bool False, Bool False, Bool False]),
             (''Year'', [Num (Fin 0), Num (Fin 0), Num (Fin 0), Num (Fin 0)])]"
  have a: "''Flyover_Observed'' \<in> set bool_cols"
    by (simp add: bool_cols_def)
  have c: "map_of ?df ''Flyover_Observed'' = Some ?s"
    by simp
  have d: "drop_duplicates ?df = ?df"
    by (simp add: frame_defs)
  have e: "initial_data_cleaning sample_pandas ?df = Inr ?out"
    by (simp add: frame_defs series_defs engine_defs sample_defs)
  from flags_normalised [OF a c, of sample_pandas]
  obtain s' where o: "map_of (fold (bool_step sample_pandas) bool_cols ?df) ''Flyover_Observed'' = Some s'"
    and n: "\<forall>i<length ?s.
                 s' ! i = Bool (equal_ignoring_case (astype_str_cell sample_pandas (?s ! i)) ''TRUE'')
               \<and> (\<forall>t. ?s ! i = Str t \<longrightarrow> s' ! i = Bool (equal_ignoring_case t ''TRUE''))
               \<and> (\<forall>t. ?s ! i = Str t \<and> equal_ignoring_case t ''FALSE'' \<longrightarrow> s' ! i = Bool False)
               \<and> (?s ! i = Null \<longrightarrow> s' ! i = Bool False)"
    and r: "\<forall>df0 out. drop_duplicates df0 = ?df \<and> initial_data_cleaning sample_pandas df0 = Inr out
                 \<longrightarrow> map_of out ''Flyover_Observed'' = Some s'"
    by blast
  from n have "s' ! 0 = Bool (equal_ignoring_case ''True'' ''TRUE'')" by simp
  moreover from n have "s' ! 3 = Bool False" by (simp add: nan_not_TRUE)
  moreover from r d e have "map_of ?out ''Flyover_Observed'' = Some s'" by blast
  then have "s' = [Bool True, Bool False, Bool False, Bool False]" by simp
  ultimately show ?thesis using a d e o by blast
qed

subsection \<open>Numbers\<close>














subsection \<open>Missing values after cleaning\<close>















end
